theory Spec2Isabelle
  imports Complex_Main
begin

section \<open>JavaScript values\<close>

text \<open>
  The handlers of \<^verbatim>\<open>src/index.js\<close> read fields of a parsed JSON body and test them
  with \<^verbatim>\<open>!x\<close> and \<^verbatim>\<open>!==\<close>. A field that is missing reads as \<^verbatim>\<open>undefined\<close>.
  Numbers parsed from JSON are finite, so rationals cover them.
\<close>

datatype jsval =
    JUndefined
  | JNull
  | JBool bool
  | JNum rat
  | JStr string
  | JArr "jsval list"
  | JObj "(string \<times> jsval) list"

text \<open>Truthiness, as \<^verbatim>\<open>if (x)\<close> and \<^verbatim>\<open>!x\<close> see it.\<close>

fun truthy :: "jsval \<Rightarrow> bool" where
  "truthy JUndefined = False"
| "truthy JNull = False"
| "truthy (JBool b) = b"
| "truthy (JNum n) = (n \<noteq> 0)"
| "truthy (JStr s) = (s \<noteq> [])"
| "truthy (JArr xs) = True"
| "truthy (JObj kvs) = True"

type_synonym jsobject = "string \<rightharpoonup> jsval"

text \<open>Destructuring \<^verbatim>\<open>const { k } = req.body\<close>: a missing key gives \<^verbatim>\<open>undefined\<close>.\<close>

definition field :: "jsobject \<Rightarrow> string \<Rightarrow> jsval" where
  "field obj k = (case obj k of None \<Rightarrow> JUndefined | Some v \<Rightarrow> v)"

text \<open>\<^verbatim>\<open>s.split(sep)\<close> for a one-character separator: every occurrence cuts, empty pieces are kept.\<close>

fun js_split :: "char \<Rightarrow> string \<Rightarrow> string list" where
  "js_split sep [] = [[]]"
| "js_split sep (c # cs) =
     (if c = sep then [] # js_split sep cs
      else (case js_split sep cs of
              [] \<Rightarrow> [[c]]
            | p # ps \<Rightarrow> (c # p) # ps))"

text \<open>\<^verbatim>\<open>xs[i]\<close>: out of range reads as \<^verbatim>\<open>undefined\<close>, here \<open>None\<close>.\<close>

definition js_index :: "'a list \<Rightarrow> nat \<Rightarrow> 'a option" where
  "js_index xs i = (if i < length xs then Some (xs ! i) else None)"


section \<open>Data model\<close>

text \<open>A row of the \<^verbatim>\<open>profiles\<close> table.\<close>

record profile =
  prof_id :: jsval
  prof_email :: jsval
  prof_username :: jsval
  prof_role :: jsval

text \<open>The object \<^verbatim>\<open>{ email, username, role }\<close> handed to \<^verbatim>\<open>.update(...)\<close>.\<close>

record profile_patch =
  patch_email :: jsval
  patch_username :: jsval
  patch_role :: jsval

text \<open>The payload signed at login and read back from \<^verbatim>\<open>req.user\<close>.\<close>

record claims =
  claim_id :: jsval
  claim_email :: jsval
  claim_role :: jsval

datatype json_body =
    Message string
  | LoginBody string profile
  | UserBody profile
  | UsersBody "profile list"

record response =
  status :: nat
  json :: json_body

text \<open>The result shapes \<^verbatim>\<open>{ data, error }\<close> of the client library.\<close>

record signin_result =
  signin_error :: "string option"
  signin_user :: "string option"

record single_result =
  single_data :: "profile option"
  single_error :: "string option"

record all_result =
  all_data :: "profile list option"
  all_error :: "string option"


section \<open>The collaborators\<close>

text \<open>
  Every call the handlers make on the identity provider, the relational store and the
  token library is written to a log, in the order of the calls.
\<close>

datatype call =
    CreateUser jsval jsval bool
  | SignInWithPassword jsval jsval
  | UpdateUserById string jsval
  | ProfilesInsert profile
  | ProfilesUpdate profile_patch string
  | ProfilesSelectSingle jsval
  | ProfilesSelectAll
  | JwtSign claims string string

text \<open>
  What the outside world answers is a parameter of the model: the identity provider
  (an error message or the new user's id), the failures of the store, the token library
  and the environment variable \<^verbatim>\<open>JWT_SECRET\<close>.
\<close>

record env =
  process_env_JWT_SECRET :: "string option"
  createUser :: "jsval \<Rightarrow> jsval \<Rightarrow> string + string"
  signInWithPassword :: "jsval \<Rightarrow> jsval \<Rightarrow> signin_result"
  updateUserById :: "string \<Rightarrow> jsval \<Rightarrow> string option"
  insert_error :: "profile list \<Rightarrow> profile \<Rightarrow> string option"
  update_error :: "profile list \<Rightarrow> profile_patch \<Rightarrow> string \<Rightarrow> string option"
  select_error :: "profile list \<Rightarrow> string option"
  jwt_sign :: "claims \<Rightarrow> string \<Rightarrow> string \<Rightarrow> string"
  jwt_verify :: "string option \<Rightarrow> string \<Rightarrow> claims option"

record world =
  profiles :: "profile list"
  calls :: "call list"

definition log_call :: "call \<Rightarrow> world \<Rightarrow> world" where
  "log_call c w = w\<lparr>calls := calls w @ [c]\<rparr>"

text \<open>\<^verbatim>\<open>const JWT_SECRET = process.env.JWT_SECRET || "YOUR_SECRET_KEY"\<close>\<close>

definition JWT_SECRET :: "env \<Rightarrow> string" where
  "JWT_SECRET env =
     (case process_env_JWT_SECRET env of
        None \<Rightarrow> ''YOUR_SECRET_KEY''
      | Some s \<Rightarrow> if s = [] then ''YOUR_SECRET_KEY'' else s)"

subsection \<open>The relational store\<close>

text \<open>
  Modelled from the spec: the external relational store, which is a managed service
  and not part of the repository. It holds the single \<^verbatim>\<open>profiles\<close> table and exposes
  select-by-id, select-all, insert and update. A call that fails leaves the table as it
  was. An update changes the columns the request carries: a member that is
  \<^verbatim>\<open>undefined\<close> is dropped when the request is serialised to JSON, so that column
  keeps its value.
\<close>

definition store_insert :: "env \<Rightarrow> profile \<Rightarrow> world \<Rightarrow> string option \<times> world" where
  "store_insert env row w =
     (let w' = log_call (ProfilesInsert row) w
      in case insert_error env (profiles w) row of
           Some e \<Rightarrow> (Some e, w')
         | None \<Rightarrow> (None, w'\<lparr>profiles := profiles w @ [row]\<rparr>))"

definition apply_patch :: "profile_patch \<Rightarrow> profile \<Rightarrow> profile" where
  "apply_patch p r =
     r\<lparr>prof_email := (if patch_email p = JUndefined then prof_email r else patch_email p),
       prof_username := (if patch_username p = JUndefined then prof_username r else patch_username p),
       prof_role := (if patch_role p = JUndefined then prof_role r else patch_role p)\<rparr>"

definition update_rows :: "profile_patch \<Rightarrow> string \<Rightarrow> profile list \<Rightarrow> profile list" where
  "update_rows p i rows = map (\<lambda>r. if prof_id r = JStr i then apply_patch p r else r) rows"

definition store_update ::
  "env \<Rightarrow> profile_patch \<Rightarrow> string \<Rightarrow> world \<Rightarrow> string option \<times> world" where
  "store_update env p i w =
     (let w' = log_call (ProfilesUpdate p i) w
      in case update_error env (profiles w) p i of
           Some e \<Rightarrow> (Some e, w')
         | None \<Rightarrow> (None, w'\<lparr>profiles := update_rows p i (profiles w)\<rparr>))"

text \<open>\<^verbatim>\<open>.select("*").eq("id", i).single()\<close>: an error unless exactly one row matches.\<close>

definition store_select_single :: "env \<Rightarrow> jsval \<Rightarrow> world \<Rightarrow> single_result \<times> world" where
  "store_select_single env i w =
     (let w' = log_call (ProfilesSelectSingle i) w
      in case select_error env (profiles w) of
           Some e \<Rightarrow> (\<lparr>single_data = None, single_error = Some e\<rparr>, w')
         | None \<Rightarrow>
             (case filter (\<lambda>r. prof_id r = i) (profiles w) of
                [r] \<Rightarrow> (\<lparr>single_data = Some r, single_error = None\<rparr>, w')
              | _ \<Rightarrow> (\<lparr>single_data = None,
                       single_error = Some ''JSON object requested, multiple (or no) rows returned''\<rparr>, w')))"

definition store_select_all :: "env \<Rightarrow> world \<Rightarrow> all_result \<times> world" where
  "store_select_all env w =
     (let w' = log_call ProfilesSelectAll w
      in case select_error env (profiles w) of
           Some e \<Rightarrow> (\<lparr>all_data = None, all_error = Some e\<rparr>, w')
         | None \<Rightarrow> (\<lparr>all_data = Some (profiles w), all_error = None\<rparr>, w'))"


subsection \<open>The session token codec\<close>

text \<open>
  Modelled from the spec: the Session Token Codec, which the handlers reach through the
  token library (\<^verbatim>\<open>jwt.sign\<close>, \<^verbatim>\<open>jwt.verify\<close>) and which is not part of the repository.
  Issuing signs the claims together with an absolute expiry seven days after the time of
  issue, under the secret key; the library stamps the time of issue as well, and a member
  that is \<^verbatim>\<open>undefined\<close> is dropped by the JSON encoding. Verifying fails when the
  signature does not match the secret, when the structure is malformed and when the
  expiry has passed; otherwise it returns the signed payload. Times are in seconds. The
  signature function is a parameter: any keyed function of the payload will do.
\<close>

type_synonym payload = "(string \<times> jsval) list"

datatype token = Malformed string | Signed payload string









section \<open>The authentication middleware\<close>

text \<open>
  \<^verbatim>\<open>auth(req, res, next)\<close>: \<open>Inl\<close> is the response sent by the middleware itself,
  \<open>Inr\<close> the value stored in \<^verbatim>\<open>req.user\<close> before \<^verbatim>\<open>next()\<close>. The header is
  \<open>None\<close> when the request carries no \<^verbatim>\<open>Authorization\<close> header.
\<close>

definition auth :: "env \<Rightarrow> string option \<Rightarrow> response + claims" where
  "auth env header =
     (case header of
        None \<Rightarrow> Inl \<lparr>status = 401, json = Message ''No token''\<rparr>
      | Some h \<Rightarrow>
          if h = [] then Inl \<lparr>status = 401, json = Message ''No token''\<rparr>
          else
            (let token = js_index (js_split (CHR '' '') h) 1
             in case jwt_verify env token (JWT_SECRET env) of
                  None \<Rightarrow> Inl \<lparr>status = 401, json = Message ''Invalid token''\<rparr>
                | Some user \<Rightarrow> Inr user))"

text \<open>A route registered as \<^verbatim>\<open>app.get(path, auth, handler)\<close>.\<close>

definition protected ::
  "env \<Rightarrow> string option \<Rightarrow> (claims \<Rightarrow> world \<Rightarrow> response \<times> world) \<Rightarrow> world \<Rightarrow> response \<times> world" where
  "protected env header handler w =
     (case auth env header of
        Inl r \<Rightarrow> (r, w)
      | Inr user \<Rightarrow> handler user w)"


section \<open>The route handlers\<close>

text \<open>\<^verbatim>\<open>POST /auth/register\<close>\<close>

definition auth_register :: "env \<Rightarrow> jsobject \<Rightarrow> world \<Rightarrow> response \<times> world" where
  "auth_register env body w =
     (let email = field body ''email'';
          password = field body ''password'';
          username = field body ''username'';
          w1 = log_call (CreateUser email password True) w
      in case createUser env email password of
           Inl message \<Rightarrow> (\<lparr>status = 400, json = Message message\<rparr>, w1)
         | Inr uid \<Rightarrow>
             (let (ignored, w2) =
                    store_insert env
                      \<lparr>prof_id = JStr uid, prof_email = email,
                       prof_username = username, prof_role = JStr ''user''\<rparr> w1
              in (\<lparr>status = 200, json = Message ''User registered''\<rparr>, w2)))"

text \<open>\<^verbatim>\<open>POST /auth/login\<close>\<close>

definition auth_login :: "env \<Rightarrow> jsobject \<Rightarrow> world \<Rightarrow> response \<times> world" where
  "auth_login env body w =
     (let email = field body ''email'';
          password = field body ''password'';
          w1 = log_call (SignInWithPassword email password) w;
          result = signInWithPassword env email password
      in case (signin_error result, signin_user result) of
           (None, Some supabaseUser) \<Rightarrow>
             (let (sel, w2) = store_select_single env (JStr supabaseUser) w1
              in case (single_error sel, single_data sel) of
                   (None, Some profile) \<Rightarrow>
                     (let payload = \<lparr>claim_id = prof_id profile,
                                     claim_email = prof_email profile,
                                     claim_role = prof_role profile\<rparr>;
                          w3 = log_call (JwtSign payload (JWT_SECRET env) ''7d'') w2;
                          token = jwt_sign env payload (JWT_SECRET env) ''7d''
                      in (\<lparr>status = 200,
                           json = LoginBody token
                             \<lparr>prof_id = prof_id profile, prof_email = prof_email profile,
                              prof_username = prof_username profile,
                              prof_role = prof_role profile\<rparr>\<rparr>, w3))
                 | _ \<Rightarrow> (\<lparr>status = 500, json = Message ''Profile not found''\<rparr>, w2))
         | _ \<Rightarrow> (\<lparr>status = 401, json = Message ''Invalid credentials''\<rparr>, w1))"

text \<open>\<^verbatim>\<open>GET /auth/me\<close>, after \<open>auth\<close>\<close>

definition auth_me :: "env \<Rightarrow> claims \<Rightarrow> world \<Rightarrow> response \<times> world" where
  "auth_me env user w =
     (let (sel, w1) = store_select_single env (claim_id user) w
      in case (single_error sel, single_data sel) of
           (None, Some data) \<Rightarrow> (\<lparr>status = 200, json = UserBody data\<rparr>, w1)
         | _ \<Rightarrow> (\<lparr>status = 500, json = Message ''Profile not found''\<rparr>, w1))"

text \<open>\<^verbatim>\<open>GET /admin/all-users\<close>, after \<open>auth\<close>\<close>

definition admin_all_users :: "env \<Rightarrow> claims \<Rightarrow> world \<Rightarrow> response \<times> world" where
  "admin_all_users env user w =
     (if claim_role user \<noteq> JStr ''admin''
      then (\<lparr>status = 403, json = Message ''Not allowed''\<rparr>, w)
      else
        (let (sel, w1) = store_select_all env w
         in case (all_error sel, all_data sel) of
              (None, Some data) \<Rightarrow> (\<lparr>status = 200, json = UsersBody data\<rparr>, w1)
            | _ \<Rightarrow> (\<lparr>status = 500, json = Message ''Error fetching users''\<rparr>, w1)))"

text \<open>\<^verbatim>\<open>POST /admin/create-user\<close>, after \<open>auth\<close>\<close>

definition admin_create_user :: "env \<Rightarrow> claims \<Rightarrow> jsobject \<Rightarrow> world \<Rightarrow> response \<times> world" where
  "admin_create_user env user body w =
     (if claim_role user \<noteq> JStr ''admin''
      then (\<lparr>status = 403, json = Message ''Not allowed''\<rparr>, w)
      else
        (let email = field body ''email'';
             password = field body ''password'';
             username = field body ''username'';
             role = field body ''role''
         in if \<not> truthy email \<or> \<not> truthy password \<or> \<not> truthy username \<or> \<not> truthy role
            then (\<lparr>status = 400, json = Message ''All fields required''\<rparr>, w)
            else
              (let w1 = log_call (CreateUser email password True) w
               in case createUser env email password of
                    Inl message \<Rightarrow> (\<lparr>status = 400, json = Message message\<rparr>, w1)
                  | Inr uid \<Rightarrow>
                      (let (profileError, w2) =
                             store_insert env
                               \<lparr>prof_id = JStr uid, prof_email = email,
                                prof_username = username, prof_role = role\<rparr> w1
                       in case profileError of
                            Some e \<Rightarrow>
                              (\<lparr>status = 500, json = Message ''Profile insert failed''\<rparr>, w2)
                          | None \<Rightarrow>
                              (\<lparr>status = 200, json = Message ''User created successfully''\<rparr>, w2)))))"

text \<open>\<^verbatim>\<open>PUT /admin/update-user/:id\<close>, after \<open>auth\<close>\<close>

definition admin_update_user ::
  "env \<Rightarrow> claims \<Rightarrow> string \<Rightarrow> jsobject \<Rightarrow> world \<Rightarrow> response \<times> world" where
  "admin_update_user env user i body w =
     (if claim_role user \<noteq> JStr ''admin''
      then (\<lparr>status = 403, json = Message ''Not allowed''\<rparr>, w)
      else
        (let email = field body ''email'';
             username = field body ''username'';
             role = field body ''role'';
             (updateError, w1) =
               store_update env
                 \<lparr>patch_email = email, patch_username = username, patch_role = role\<rparr> i w
         in case updateError of
              Some message \<Rightarrow> (\<lparr>status = 400, json = Message message\<rparr>, w1)
            | None \<Rightarrow>
                if truthy email
                then
                  (let w2 = log_call (UpdateUserById i email) w1
                   in case updateUserById env i email of
                        Some message \<Rightarrow> (\<lparr>status = 400, json = Message message\<rparr>, w2)
                      | None \<Rightarrow>
                          (\<lparr>status = 200, json = Message ''User updated successfully''\<rparr>, w2))
                else (\<lparr>status = 200, json = Message ''User updated successfully''\<rparr>, w1)))"

text \<open>The four routes that are registered behind \<open>auth\<close>.\<close>

definition route_me :: "env \<Rightarrow> string option \<Rightarrow> world \<Rightarrow> response \<times> world" where
  "route_me env header w = protected env header (auth_me env) w"

definition route_all_users :: "env \<Rightarrow> string option \<Rightarrow> world \<Rightarrow> response \<times> world" where
  "route_all_users env header w = protected env header (admin_all_users env) w"

definition route_create_user ::
  "env \<Rightarrow> string option \<Rightarrow> jsobject \<Rightarrow> world \<Rightarrow> response \<times> world" where
  "route_create_user env header body w =
     protected env header (\<lambda>user. admin_create_user env user body) w"

definition route_update_user ::
  "env \<Rightarrow> string option \<Rightarrow> string \<Rightarrow> jsobject \<Rightarrow> world \<Rightarrow> response \<times> world" where
  "route_update_user env header i body w =
     protected env header (\<lambda>user. admin_update_user env user i body) w"


section \<open>Concrete scenarios\<close>

text \<open>
  A provider that knows one account, a store that answers every select and update, a
  token library that accepts the one token \<^verbatim>\<open>tok\<close>, and a few requests.
\<close>

definition demo_env :: env where
  "demo_env =
     \<lparr>process_env_JWT_SECRET = None,
      createUser = (\<lambda>email password. if truthy email then Inr ''u1'' else Inl ''email required''),
      signInWithPassword = (\<lambda>email password.
         if password = JStr ''pw'' then \<lparr>signin_error = None, signin_user = Some ''u1''\<rparr>
         else \<lparr>signin_error = Some ''Invalid login credentials'', signin_user = None\<rparr>),
      updateUserById = (\<lambda>i email. if email = JStr ''taken@x.com'' then Some ''Email already registered'' else None),
      insert_error = (\<lambda>rows row. if rows = [] then None else Some ''duplicate key''),
      update_error = (\<lambda>rows p i. None),
      select_error = (\<lambda>rows. None),
      jwt_sign = (\<lambda>payload secret expiresIn. ''tok''),
      jwt_verify = (\<lambda>token secret.
         if token = Some ''tok''
         then Some \<lparr>claim_id = JStr ''u1'', claim_email = JStr ''a@x.com'', claim_role = JStr ''user''\<rparr>
         else None)\<rparr>"

definition demo_row :: profile where
  "demo_row = \<lparr>prof_id = JStr ''u1'', prof_email = JStr ''a@x.com'',
               prof_username = JStr ''a'', prof_role = JStr ''user''\<rparr>"

definition demo_world :: world where
  "demo_world = \<lparr>profiles = [demo_row], calls = []\<rparr>"

definition empty_world :: world where
  "empty_world = \<lparr>profiles = [], calls = []\<rparr>"

definition admin_claims :: claims where
  "admin_claims = \<lparr>claim_id = JStr ''u0'', claim_email = JStr ''root@x.com'', claim_role = JStr ''admin''\<rparr>"

definition user_claims :: claims where
  "user_claims = \<lparr>claim_id = JStr ''u1'', claim_email = JStr ''a@x.com'', claim_role = JStr ''user''\<rparr>"

definition register_body :: jsobject where
  "register_body =
     [''email'' \<mapsto> JStr ''a@x.com'', ''password'' \<mapsto> JStr ''p'',
      ''username'' \<mapsto> JStr ''a'', ''role'' \<mapsto> JStr ''admin'']"

definition admin_env :: env where
  "admin_env = demo_env\<lparr>jwt_verify := (\<lambda>token secret. if token = Some ''tok'' then Some admin_claims else None)\<rparr>"

definition failing_insert_env :: env where
  "failing_insert_env = demo_env\<lparr>insert_error := (\<lambda>rows row. Some ''connection refused'')\<rparr>"

definition username_body :: jsobject where
  "username_body = [''username'' \<mapsto> JStr ''bob'']"

definition email_body :: jsobject where
  "email_body = [''email'' \<mapsto> JStr ''taken@x.com'']"



section \<open>Properties of the helpers\<close>

lemma field_upd_other: "k \<noteq> k' \<Longrightarrow> field (obj(k' \<mapsto> v)) k = field obj k"
  by (simp add: field_def)

lemma js_split_not_Nil: "js_split sep s \<noteq> []"
  by (induction s) (auto split: list.splits)

lemma js_split_no_sep: "sep \<notin> set s \<Longrightarrow> js_split sep s = [s]"
  by (induction s) auto

lemma js_split_first: "sep \<notin> set x \<Longrightarrow> js_split sep (x @ sep # rest) = x # js_split sep rest"
  by (induction x) auto

lemma apply_patch_id: "prof_id (apply_patch p r) = prof_id r"
  by (simp add: apply_patch_def)

lemma apply_patch_username_only:
  "apply_patch \<lparr>patch_email = JUndefined, patch_username = v, patch_role = JUndefined\<rparr> r =
     (if v = JUndefined then r else r\<lparr>prof_username := v\<rparr>)"
  by (simp add: apply_patch_def)



text \<open>
  The code's share of the token's journey: the login handler signs the claims of the
  profile under \<open>JWT_SECRET\<close>, and \<open>auth\<close> verifies under the same secret what follows
  \<^verbatim>\<open>Bearer\<close> and one space. So when the library returns the claims it signed, the token
  of a login passes the gate with the claims of the profile.
\<close>

lemma login_token_passes_gate:
  assumes "auth_login env body w = (\<lparr>status = 200, json = LoginBody tok p\<rparr>, w')"
    and "CHR '' '' \<notin> set tok"
    and "jwt_verify env
           (Some (jwt_sign env
              \<lparr>claim_id = prof_id p, claim_email = prof_email p, claim_role = prof_role p\<rparr>
              (JWT_SECRET env) ''7d'')) (JWT_SECRET env)
         = Some \<lparr>claim_id = prof_id p, claim_email = prof_email p, claim_role = prof_role p\<rparr>"
  shows "auth env (Some (''Bearer '' @ tok)) =
           Inr \<lparr>claim_id = prof_id p, claim_email = prof_email p, claim_role = prof_role p\<rparr>"
proof -
  let ?c = "\<lparr>claim_id = prof_id p, claim_email = prof_email p, claim_role = prof_role p\<rparr>"
  have t: "tok = jwt_sign env ?c (JWT_SECRET env) ''7d''"
    using assms(1)
    by (auto simp add: auth_login_def Let_def split: option.splits prod.splits)
  have s: "js_split (CHR '' '') (''Bearer'' @ CHR '' '' # tok) = [''Bearer'', tok]"
    using assms(2) js_split_first [of "CHR '' ''" "''Bearer''" tok]
    by (simp add: js_split_no_sep)
  have i: "js_index (js_split (CHR '' '') (''Bearer '' @ tok)) 1 = Some tok"
    using s by (simp add: js_index_def)
  show ?thesis
    using i assms(3) t by (simp add: auth_def)
qed

lemma login_token_passes_gate_example:
  "auth_login demo_env [''email'' \<mapsto> JStr ''a@x.com'', ''password'' \<mapsto> JStr ''pw''] demo_world =
     (\<lparr>status = 200, json = LoginBody ''tok'' demo_row\<rparr>,
      \<lparr>profiles = [demo_row],
       calls = [SignInWithPassword (JStr ''a@x.com'') (JStr ''pw''),
                ProfilesSelectSingle (JStr ''u1''),
                JwtSign user_claims ''YOUR_SECRET_KEY'' ''7d'']\<rparr>)
   \<and> auth demo_env (Some ''Bearer tok'') = Inr user_claims"
  by (simp add: auth_login_def store_select_single_def log_call_def Let_def demo_env_def
        demo_world_def demo_row_def user_claims_def field_def JWT_SECRET_def auth_def
        js_index_def)


section \<open>Properties of the handlers\<close>

text \<open>
  C1. When the identity provider accepts the registration, the register handler calls the
  provider and then inserts one profile row whose role is \<^verbatim>\<open>"user"\<close>; when the store
  accepts the insert, that row is appended to the table. A role member in the request
  body changes nothing: the handler behaves the same with and without it.
\<close>

theorem register_stores_role_user:
  assumes "createUser env (field body ''email'') (field body ''password'') = Inr uid"
  shows "calls (snd (auth_register env body w)) =
           calls w @
             [CreateUser (field body ''email'') (field body ''password'') True,
              ProfilesInsert \<lparr>prof_id = JStr uid, prof_email = field body ''email'',
                prof_username = field body ''username'', prof_role = JStr ''user''\<rparr>]
         \<and> (insert_error env (profiles w)
               \<lparr>prof_id = JStr uid, prof_email = field body ''email'',
                prof_username = field body ''username'', prof_role = JStr ''user''\<rparr> = None
            \<longrightarrow> profiles (snd (auth_register env body w)) =
                  profiles w @
                    [\<lparr>prof_id = JStr uid, prof_email = field body ''email'',
                      prof_username = field body ''username'', prof_role = JStr ''user''\<rparr>])
         \<and> auth_register env (body(''role'' \<mapsto> r)) w = auth_register env body w"
  using assms
  by (simp add: auth_register_def store_insert_def log_call_def field_def Let_def
           split: option.splits)

text \<open>A registration that asks for the role \<^verbatim>\<open>"admin"\<close> is stored with the role \<^verbatim>\<open>"user"\<close>.\<close>

theorem register_stores_role_user_witness:
  "createUser demo_env (field register_body ''email'') (field register_body ''password'') = Inr ''u1''
   \<and> calls (snd (auth_register demo_env register_body empty_world)) =
       [CreateUser (JStr ''a@x.com'') (JStr ''p'') True,
        ProfilesInsert \<lparr>prof_id = JStr ''u1'', prof_email = JStr ''a@x.com'',
          prof_username = JStr ''a'', prof_role = JStr ''user''\<rparr>]
   \<and> profiles (snd (auth_register demo_env register_body empty_world)) =
       [\<lparr>prof_id = JStr ''u1'', prof_email = JStr ''a@x.com'',
         prof_username = JStr ''a'', prof_role = JStr ''user''\<rparr>]"
  using register_stores_role_user [of demo_env register_body "''u1''" empty_world "JStr ''admin''"]
  by (simp add: demo_env_def register_body_def empty_world_def field_def)




text \<open>
  C3. A request that passes \<open>auth\<close> with claims whose role is not \<^verbatim>\<open>"admin"\<close> gets
  status 403 with the message \<^verbatim>\<open>"Not allowed"\<close> from each of the three admin routes, and
  the world is returned as it was: no call on the store or on the provider is logged and
  the table is untouched.
\<close>

theorem admin_routes_forbid_non_admin:
  assumes "auth env header = Inr user" and "claim_role user \<noteq> JStr ''admin''"
  shows "route_all_users env header w = (\<lparr>status = 403, json = Message ''Not allowed''\<rparr>, w)
       \<and> route_create_user env header body w = (\<lparr>status = 403, json = Message ''Not allowed''\<rparr>, w)
       \<and> route_update_user env header i body w = (\<lparr>status = 403, json = Message ''Not allowed''\<rparr>, w)"
  using assms
  by (simp add: route_all_users_def route_create_user_def route_update_user_def protected_def
        admin_all_users_def admin_create_user_def admin_update_user_def)

text \<open>A caller with the role \<^verbatim>\<open>"user"\<close> and a token that verifies.\<close>

theorem admin_routes_forbid_non_admin_witness:
  "auth demo_env (Some ''Bearer tok'') = Inr user_claims
   \<and> claim_role user_claims \<noteq> JStr ''admin''
   \<and> route_all_users demo_env (Some ''Bearer tok'') demo_world
       = (\<lparr>status = 403, json = Message ''Not allowed''\<rparr>, demo_world)
   \<and> route_create_user demo_env (Some ''Bearer tok'') register_body demo_world
       = (\<lparr>status = 403, json = Message ''Not allowed''\<rparr>, demo_world)
   \<and> route_update_user demo_env (Some ''Bearer tok'') ''u1'' register_body demo_world
       = (\<lparr>status = 403, json = Message ''Not allowed''\<rparr>, demo_world)"
proof -
  have a: "auth demo_env (Some ''Bearer tok'') = Inr user_claims"
    by (simp add: auth_def demo_env_def user_claims_def js_index_def JWT_SECRET_def)
  have r: "claim_role user_claims \<noteq> JStr ''admin''"
    by (simp add: user_claims_def)
  show ?thesis
    using a r admin_routes_forbid_non_admin [OF a r, of demo_world register_body "''u1''"]
    by simp
qed

text \<open>
  C4, as amended. On every route behind \<open>auth\<close> (and for any handler registered behind
  it): when the \<^verbatim>\<open>Authorization\<close> header is absent or is the empty string, the
  response is 401 with \<^verbatim>\<open>"No token"\<close>; when the header is a non-empty string and the
  token taken from it fails verification, the response is 401 with
  \<^verbatim>\<open>"Invalid token"\<close>. In both cases the handler is not reached: the world is unchanged.
\<close>

theorem gate_rejects_missing_or_invalid_token:
  "((header = None \<or> header = Some []) \<longrightarrow>
      protected env header handler w = (\<lparr>status = 401, json = Message ''No token''\<rparr>, w)
    \<and> route_me env header w = (\<lparr>status = 401, json = Message ''No token''\<rparr>, w)
    \<and> route_all_users env header w = (\<lparr>status = 401, json = Message ''No token''\<rparr>, w)
    \<and> route_create_user env header body w = (\<lparr>status = 401, json = Message ''No token''\<rparr>, w)
    \<and> route_update_user env header i body w = (\<lparr>status = 401, json = Message ''No token''\<rparr>, w))
   \<and> ((header = Some h \<and> h \<noteq> []
        \<and> jwt_verify env (js_index (js_split (CHR '' '') h) 1) (JWT_SECRET env) = None) \<longrightarrow>
      protected env header handler w = (\<lparr>status = 401, json = Message ''Invalid token''\<rparr>, w)
    \<and> route_me env header w = (\<lparr>status = 401, json = Message ''Invalid token''\<rparr>, w)
    \<and> route_all_users env header w = (\<lparr>status = 401, json = Message ''Invalid token''\<rparr>, w)
    \<and> route_create_user env header body w = (\<lparr>status = 401, json = Message ''Invalid token''\<rparr>, w)
    \<and> route_update_user env header i body w = (\<lparr>status = 401, json = Message ''Invalid token''\<rparr>, w))"
  by (auto simp add: route_me_def route_all_users_def route_create_user_def route_update_user_def
        protected_def auth_def)

text \<open>No header, an empty header, and a header whose token does not verify.\<close>

theorem gate_rejects_missing_or_invalid_token_witness:
  "route_me demo_env None demo_world = (\<lparr>status = 401, json = Message ''No token''\<rparr>, demo_world)
   \<and> route_update_user demo_env (Some []) ''u1'' register_body demo_world
       = (\<lparr>status = 401, json = Message ''No token''\<rparr>, demo_world)
   \<and> jwt_verify demo_env (js_index (js_split (CHR '' '') ''Bearer garbage'') 1) (JWT_SECRET demo_env) = None
   \<and> route_all_users demo_env (Some ''Bearer garbage'') demo_world
       = (\<lparr>status = 401, json = Message ''Invalid token''\<rparr>, demo_world)"
proof -
  have v: "jwt_verify demo_env (js_index (js_split (CHR '' '') ''Bearer garbage'') 1) (JWT_SECRET demo_env) = None"
    by (simp add: demo_env_def js_index_def)
  show ?thesis
    using v
      gate_rejects_missing_or_invalid_token [of None demo_env "auth_me demo_env" demo_world register_body "''u1''" "[]"]
      gate_rejects_missing_or_invalid_token [of "Some []" demo_env "auth_me demo_env" demo_world register_body "''u1''" "[]"]
      gate_rejects_missing_or_invalid_token [of "Some ''Bearer garbage''" demo_env "auth_me demo_env" demo_world register_body "''u1''" "''Bearer garbage''"]
    by simp
qed

text \<open>
  C4 as stated fails for a header that is present and empty: the token read from it is
  \<^verbatim>\<open>undefined\<close>, which does not verify, yet the message is \<^verbatim>\<open>"No token"\<close> and not
  \<^verbatim>\<open>"Invalid token"\<close>, because \<^verbatim>\<open>!header\<close> holds for the empty string.
\<close>

theorem empty_header_counterexample:
  "jwt_verify demo_env (js_index (js_split (CHR '' '') []) 1) (JWT_SECRET demo_env) = None
   \<and> route_me demo_env (Some []) demo_world
       = (\<lparr>status = 401, json = Message ''No token''\<rparr>, demo_world)
   \<and> route_me demo_env (Some []) demo_world
       \<noteq> (\<lparr>status = 401, json = Message ''Invalid token''\<rparr>, demo_world)"
  by (simp add: route_me_def protected_def auth_def demo_env_def js_index_def)

text \<open>
  C5, as amended. For a non-empty header the credential handed to verification is the
  piece at index 1 of the header cut at every single space character (\<^verbatim>\<open>undefined\<close> when
  there is no such piece); nothing checks the first piece. For a header \<^verbatim>\<open>x t\<close> or
  \<^verbatim>\<open>x t rest\<close>, where \<^verbatim>\<open>x\<close> and \<^verbatim>\<open>t\<close> hold no space and the separators are single
  spaces, the credential is \<^verbatim>\<open>t\<close>, whatever \<^verbatim>\<open>x\<close> is.
\<close>

theorem bearer_is_second_piece_of_space_split:
  assumes "CHR '' '' \<notin> set x" and "CHR '' '' \<notin> set t"
  shows "(h \<noteq> [] \<longrightarrow>
            auth env (Some h) =
              (case jwt_verify env (js_index (js_split (CHR '' '') h) 1) (JWT_SECRET env) of
                 None \<Rightarrow> Inl \<lparr>status = 401, json = Message ''Invalid token''\<rparr>
               | Some user \<Rightarrow> Inr user))
       \<and> js_index (js_split (CHR '' '') (x @ '' '' @ t)) 1 = Some t
       \<and> js_index (js_split (CHR '' '') (x @ '' '' @ t @ '' '' @ rest)) 1 = Some t
       \<and> auth env (Some (x @ '' '' @ t @ '' '' @ rest)) =
           (case jwt_verify env (Some t) (JWT_SECRET env) of
              None \<Rightarrow> Inl \<lparr>status = 401, json = Message ''Invalid token''\<rparr>
            | Some user \<Rightarrow> Inr user)
       \<and> auth env (Some (x @ '' '' @ t)) =
           (case jwt_verify env (Some t) (JWT_SECRET env) of
              None \<Rightarrow> Inl \<lparr>status = 401, json = Message ''Invalid token''\<rparr>
            | Some user \<Rightarrow> Inr user)"
proof -
  have s1: "js_split (CHR '' '') (x @ '' '' @ t) = [x, t]"
    using assms by (simp add: js_split_first js_split_no_sep)
  have s2: "js_split (CHR '' '') (x @ '' '' @ t @ '' '' @ rest) = x # t # js_split (CHR '' '') rest"
    using assms by (simp add: js_split_first)
  have i1: "js_index (js_split (CHR '' '') (x @ '' '' @ t)) 1 = Some t"
    using s1 by (simp add: js_index_def)
  have i2: "js_index (js_split (CHR '' '') (x @ '' '' @ t @ '' '' @ rest)) 1 = Some t"
    using s2 by (simp add: js_index_def)
  have a: "h \<noteq> [] \<longrightarrow>
            auth env (Some h) =
              (case jwt_verify env (js_index (js_split (CHR '' '') h) 1) (JWT_SECRET env) of
                 None \<Rightarrow> Inl \<lparr>status = 401, json = Message ''Invalid token''\<rparr>
               | Some user \<Rightarrow> Inr user)" for h
    by (simp add: auth_def)
  have a1: "auth env (Some (x @ '' '' @ t)) =
           (case jwt_verify env (Some t) (JWT_SECRET env) of
              None \<Rightarrow> Inl \<lparr>status = 401, json = Message ''Invalid token''\<rparr>
            | Some user \<Rightarrow> Inr user)"
    using a [of "x @ '' '' @ t"] i1 by simp
  have a2: "auth env (Some (x @ '' '' @ t @ '' '' @ rest)) =
           (case jwt_verify env (Some t) (JWT_SECRET env) of
              None \<Rightarrow> Inl \<lparr>status = 401, json = Message ''Invalid token''\<rparr>
            | Some user \<Rightarrow> Inr user)"
    using a [of "x @ '' '' @ t @ '' '' @ rest"] i2 by simp
  show ?thesis
    using a [of h] i1 i2 a1 a2 by blast
qed

text \<open>A header with the scheme \<^verbatim>\<open>Basic\<close> passes the gate all the same.\<close>

theorem bearer_is_second_piece_of_space_split_witness:
  "CHR '' '' \<notin> set ''Basic'' \<and> CHR '' '' \<notin> set ''tok''
   \<and> js_index (js_split (CHR '' '') ''Basic tok'') 1 = Some ''tok''
   \<and> js_index (js_split (CHR '' '') ''Basic tok and more'') 1 = Some ''tok''
   \<and> auth demo_env (Some ''Basic tok and more'') = Inr user_claims"
  using bearer_is_second_piece_of_space_split
          [of "''Basic''" "''tok''" "''Basic tok''" demo_env "''and more''"]
  by (simp add: demo_env_def user_claims_def)

text \<open>
  C5 as stated fails when the whitespace between the two tokens is not one space: with a
  tab the credential is \<^verbatim>\<open>undefined\<close>, with two spaces it is the empty string, and a
  token that would verify is rejected.
\<close>

theorem whitespace_split_counterexample:
  "js_index (js_split (CHR '' '') (''X'' @ [CHR 0x09] @ ''t'')) 1 = None
   \<and> js_index (js_split (CHR '' '') ''X  t'') 1 = Some []
   \<and> auth demo_env (Some (''X'' @ [CHR 0x09] @ ''tok''))
       = Inl \<lparr>status = 401, json = Message ''Invalid token''\<rparr>
   \<and> auth demo_env (Some ''X  tok'')
       = Inl \<lparr>status = 401, json = Message ''Invalid token''\<rparr>
   \<and> jwt_verify demo_env (Some ''tok'') (JWT_SECRET demo_env) = Some user_claims"
  by (simp add: js_index_def auth_def demo_env_def user_claims_def)

text \<open>
  C6. When the provider's create-user call succeeds, the register handler answers with
  status 200 and \<^verbatim>\<open>{message: "User registered"}\<close>, whatever the store answers to the
  insert: the response is the same for every outcome of the insert.
\<close>

theorem register_ignores_insert_outcome:
  assumes "createUser env (field body ''email'') (field body ''password'') = Inr uid"
  shows "fst (auth_register (env\<lparr>insert_error := outcome\<rparr>) body w)
           = \<lparr>status = 200, json = Message ''User registered''\<rparr>
       \<and> fst (auth_register env body w) = \<lparr>status = 200, json = Message ''User registered''\<rparr>"
  using assms
  by (simp add: auth_register_def store_insert_def Let_def split: option.splits)

text \<open>The store refuses the insert, the table keeps its rows, and the caller is told 200.\<close>

theorem register_ignores_insert_outcome_witness:
  "createUser failing_insert_env (field register_body ''email'') (field register_body ''password'') = Inr ''u1''
   \<and> insert_error failing_insert_env (profiles demo_world)
        \<lparr>prof_id = JStr ''u1'', prof_email = JStr ''a@x.com'',
         prof_username = JStr ''a'', prof_role = JStr ''user''\<rparr> = Some ''connection refused''
   \<and> auth_register failing_insert_env register_body demo_world =
       (\<lparr>status = 200, json = Message ''User registered''\<rparr>,
        \<lparr>profiles = [demo_row],
         calls = [CreateUser (JStr ''a@x.com'') (JStr ''p'') True,
                  ProfilesInsert \<lparr>prof_id = JStr ''u1'', prof_email = JStr ''a@x.com'',
                    prof_username = JStr ''a'', prof_role = JStr ''user''\<rparr>]\<rparr>)"
  using register_ignores_insert_outcome
          [of failing_insert_env register_body "''u1''" "insert_error failing_insert_env" demo_world]
  by (simp add: failing_insert_env_def demo_env_def register_body_def demo_world_def field_def
        auth_register_def store_insert_def log_call_def Let_def)

text \<open>
  C7. When the provider's sign-in returns an error or no user, the login handler answers
  with status 401 and \<^verbatim>\<open>{message: "Invalid credentials"}\<close>. The only call logged is
  the sign-in: no profile is looked up and no token is signed.
\<close>

theorem login_rejects_bad_credentials:
  assumes "signin_error (signInWithPassword env (field body ''email'') (field body ''password'')) \<noteq> None
         \<or> signin_user (signInWithPassword env (field body ''email'') (field body ''password'')) = None"
  shows "auth_login env body w =
           (\<lparr>status = 401, json = Message ''Invalid credentials''\<rparr>,
            w\<lparr>calls := calls w @
                 [SignInWithPassword (field body ''email'') (field body ''password'')]\<rparr>)"
  using assms
  by (auto simp add: auth_login_def log_call_def Let_def split: option.splits)

text \<open>A wrong password.\<close>

theorem login_rejects_bad_credentials_witness:
  "signin_error (signInWithPassword demo_env (field register_body ''email'') (field register_body ''password''))
     = Some ''Invalid login credentials''
   \<and> auth_login demo_env register_body demo_world =
       (\<lparr>status = 401, json = Message ''Invalid credentials''\<rparr>,
        \<lparr>profiles = [demo_row],
         calls = [SignInWithPassword (JStr ''a@x.com'') (JStr ''p'')]\<rparr>)"
  using login_rejects_bad_credentials [of demo_env register_body demo_world]
  by (simp add: demo_env_def register_body_def demo_world_def field_def)

text \<open>
  C8. An admin updates a user with a truthy email. When the update of the profile table
  succeeds and the provider's update-user-by-id fails, the handler answers 400 with the
  provider's message, the table is the updated one (every row with that id carries the
  new email), and the update and the provider call are the only calls: nothing undoes
  the write.
\<close>

theorem update_user_not_rolled_back:
  assumes "claim_role user = JStr ''admin''"
    and "truthy (field body ''email'')"
    and "update_error env (profiles w)
           \<lparr>patch_email = field body ''email'', patch_username = field body ''username'',
            patch_role = field body ''role''\<rparr> i = None"
    and "updateUserById env i (field body ''email'') = Some message"
  shows "admin_update_user env user i body w =
           (\<lparr>status = 400, json = Message message\<rparr>,
            w\<lparr>profiles :=
                 update_rows
                   \<lparr>patch_email = field body ''email'', patch_username = field body ''username'',
                    patch_role = field body ''role''\<rparr> i (profiles w),
              calls := calls w @
                 [ProfilesUpdate
                    \<lparr>patch_email = field body ''email'', patch_username = field body ''username'',
                     patch_role = field body ''role''\<rparr> i,
                  UpdateUserById i (field body ''email'')]\<rparr>)
       \<and> (\<forall>r \<in> set (profiles (snd (admin_update_user env user i body w))).
             prof_id r = JStr i \<longrightarrow> prof_email r = field body ''email'')"
proof -
  let ?p = "\<lparr>patch_email = field body ''email'', patch_username = field body ''username'',
             patch_role = field body ''role''\<rparr>"
  have res: "admin_update_user env user i body w =
           (\<lparr>status = 400, json = Message message\<rparr>,
            w\<lparr>profiles := update_rows ?p i (profiles w),
              calls := calls w @ [ProfilesUpdate ?p i, UpdateUserById i (field body ''email'')]\<rparr>)"
    using assms
    by (simp add: admin_update_user_def store_update_def log_call_def Let_def)
  have defined: "field body ''email'' \<noteq> JUndefined"
    using assms(2) by auto
  have rows: "\<forall>r \<in> set (update_rows ?p i (profiles w)).
                prof_id r = JStr i \<longrightarrow> prof_email r = field body ''email''"
    using defined by (auto simp add: update_rows_def apply_patch_def)
  show ?thesis
    using res rows by simp
qed

text \<open>The provider refuses an email that is taken; the profile row already carries it.\<close>

theorem update_user_not_rolled_back_witness:
  "claim_role admin_claims = JStr ''admin''
   \<and> truthy (field email_body ''email'')
   \<and> updateUserById demo_env ''u1'' (field email_body ''email'') = Some ''Email already registered''
   \<and> admin_update_user demo_env admin_claims ''u1'' email_body demo_world =
       (\<lparr>status = 400, json = Message ''Email already registered''\<rparr>,
        \<lparr>profiles = [\<lparr>prof_id = JStr ''u1'', prof_email = JStr ''taken@x.com'',
                       prof_username = JStr ''a'', prof_role = JStr ''user''\<rparr>],
         calls = [ProfilesUpdate
                    \<lparr>patch_email = JStr ''taken@x.com'', patch_username = JUndefined,
                     patch_role = JUndefined\<rparr> ''u1'',
                  UpdateUserById ''u1'' (JStr ''taken@x.com'')]\<rparr>)"
  using update_user_not_rolled_back
          [of admin_claims email_body demo_env demo_world "''u1''" "''Email already registered''"]
  by (simp add: admin_claims_def email_body_def demo_env_def demo_world_def demo_row_def
        field_def update_rows_def apply_patch_def)

text \<open>
  C9. An admin updates a user and the body carries a username only (email and role are
  missing). When the handler answers 200, the rows with that id have the new username,
  the email, role and id columns of every row are as before, and the one call logged is
  the update of the store: the provider is not called.
\<close>

theorem update_user_username_only:
  assumes "claim_role user = JStr ''admin''"
    and "field body ''email'' = JUndefined"
    and "field body ''role'' = JUndefined"
    and "field body ''username'' = v" and "v \<noteq> JUndefined"
    and "fst (admin_update_user env user i body w) =
           \<lparr>status = 200, json = Message ''User updated successfully''\<rparr>"
  shows "snd (admin_update_user env user i body w) =
           w\<lparr>profiles :=
                map (\<lambda>r. if prof_id r = JStr i then r\<lparr>prof_username := v\<rparr> else r) (profiles w),
             calls := calls w @
                [ProfilesUpdate
                   \<lparr>patch_email = JUndefined, patch_username = v, patch_role = JUndefined\<rparr> i]\<rparr>
       \<and> map prof_email (profiles (snd (admin_update_user env user i body w)))
           = map prof_email (profiles w)
       \<and> map prof_role (profiles (snd (admin_update_user env user i body w)))
           = map prof_role (profiles w)
       \<and> map prof_id (profiles (snd (admin_update_user env user i body w)))
           = map prof_id (profiles w)
       \<and> (\<forall>r \<in> set (profiles (snd (admin_update_user env user i body w))).
             prof_id r = JStr i \<longrightarrow> prof_username r = v)"
proof -
  let ?p = "\<lparr>patch_email = JUndefined, patch_username = v, patch_role = JUndefined\<rparr>"
  let ?rows = "map (\<lambda>r. if prof_id r = JStr i then r\<lparr>prof_username := v\<rparr> else r) (profiles w)"
  have ok: "update_error env (profiles w) ?p i = None"
    using assms
    by (auto simp add: admin_update_user_def store_update_def log_call_def Let_def
          split: option.splits)
  have upd: "update_rows ?p i (profiles w) = ?rows"
    using assms(5) by (simp add: update_rows_def apply_patch_username_only)
  have res: "snd (admin_update_user env user i body w) =
               w\<lparr>profiles := ?rows, calls := calls w @ [ProfilesUpdate ?p i]\<rparr>"
    using assms(1-4) ok upd
    by (simp add: admin_update_user_def store_update_def log_call_def Let_def)
  have e: "map prof_email ?rows = map prof_email (profiles w)"
    by (induction "profiles w") auto
  have r: "map prof_role ?rows = map prof_role (profiles w)"
    by (induction "profiles w") auto
  have k: "map prof_id ?rows = map prof_id (profiles w)"
    by (induction "profiles w") auto
  have u: "\<forall>r \<in> set ?rows. prof_id r = JStr i \<longrightarrow> prof_username r = v"
    by auto
  show ?thesis
    using res e r k u by simp
qed

text \<open>Renaming the user \<^verbatim>\<open>u1\<close> to \<^verbatim>\<open>bob\<close>.\<close>

theorem update_user_username_only_witness:
  "claim_role admin_claims = JStr ''admin''
   \<and> field username_body ''email'' = JUndefined
   \<and> field username_body ''role'' = JUndefined
   \<and> field username_body ''username'' = JStr ''bob''
   \<and> admin_update_user demo_env admin_claims ''u1'' username_body demo_world =
       (\<lparr>status = 200, json = Message ''User updated successfully''\<rparr>,
        \<lparr>profiles = [\<lparr>prof_id = JStr ''u1'', prof_email = JStr ''a@x.com'',
                       prof_username = JStr ''bob'', prof_role = JStr ''user''\<rparr>],
         calls = [ProfilesUpdate
                    \<lparr>patch_email = JUndefined, patch_username = JStr ''bob'',
                     patch_role = JUndefined\<rparr> ''u1'']\<rparr>)"
proof -
  have run: "admin_update_user demo_env admin_claims ''u1'' username_body demo_world =
       (\<lparr>status = 200, json = Message ''User updated successfully''\<rparr>,
        \<lparr>profiles = [\<lparr>prof_id = JStr ''u1'', prof_email = JStr ''a@x.com'',
                       prof_username = JStr ''bob'', prof_role = JStr ''user''\<rparr>],
         calls = [ProfilesUpdate
                    \<lparr>patch_email = JUndefined, patch_username = JStr ''bob'',
                     patch_role = JUndefined\<rparr> ''u1'']\<rparr>)"
    by (simp add: admin_update_user_def store_update_def log_call_def Let_def
          admin_claims_def username_body_def demo_env_def demo_world_def demo_row_def
          field_def update_rows_def apply_patch_def)
  have hyps: "claim_role admin_claims = JStr ''admin''"
    "field username_body ''email'' = JUndefined"
    "field username_body ''role'' = JUndefined"
    "field username_body ''username'' = JStr ''bob''"
    "JStr ''bob'' \<noteq> JUndefined"
    by (simp_all add: admin_claims_def username_body_def field_def)
  have ok: "fst (admin_update_user demo_env admin_claims ''u1'' username_body demo_world) =
           \<lparr>status = 200, json = Message ''User updated successfully''\<rparr>"
    by (simp add: run)
  show ?thesis
    using update_user_username_only [OF hyps ok] hyps run by simp
qed

text \<open>
  C10. In the create-user handler the role check comes first: a caller whose role is not
  \<^verbatim>\<open>"admin"\<close> gets 403 with \<^verbatim>\<open>"Not allowed"\<close> for every body, also one with missing
  fields, and a response 400 with \<^verbatim>\<open>"All fields required"\<close> means the caller is an admin.
\<close>

theorem create_user_checks_role_first:
  "(claim_role user \<noteq> JStr ''admin'' \<longrightarrow>
      admin_create_user env user body w =
        (\<lparr>status = 403, json = Message ''Not allowed''\<rparr>, w))
   \<and> (fst (admin_create_user env user body w) =
         \<lparr>status = 400, json = Message ''All fields required''\<rparr> \<longrightarrow>
       claim_role user = JStr ''admin'')"
  by (simp add: admin_create_user_def)

text \<open>An empty body, sent by a user and by an admin.\<close>

theorem create_user_checks_role_first_witness:
  "claim_role user_claims \<noteq> JStr ''admin''
   \<and> admin_create_user demo_env user_claims Map.empty demo_world =
        (\<lparr>status = 403, json = Message ''Not allowed''\<rparr>, demo_world)
   \<and> admin_create_user demo_env admin_claims Map.empty demo_world =
        (\<lparr>status = 400, json = Message ''All fields required''\<rparr>, demo_world)
   \<and> claim_role admin_claims = JStr ''admin''"
  using create_user_checks_role_first [of user_claims demo_env Map.empty demo_world]
        create_user_checks_role_first [of admin_claims demo_env Map.empty demo_world]
  by (simp add: user_claims_def admin_claims_def admin_create_user_def field_def)

end
